theory Spec2Isabelle
  imports Main "HOL-Library.Word" "HOL-Library.Multiset"
begin

unbundle bit_operations_syntax

section \<open>Values of the host language\<close>

text \<open>
  Identifiers, titles and messages are \<open>string\<close>s. An optional property (\<open>x?: T\<close>, or a
  value that may be \<open>null\<close>) is a \<open>T option\<close>. The argument of \<open>getUserColor\<close> is read
  through \<open>charCodeAt\<close>, which yields UTF-16 code units, so it is a list of 16-bit words.
\<close>

type_synonym utf16 = "16 word list"

text \<open>
  The truthiness test \<open>!v\<close> on an optional string: \<open>undefined\<close>, \<open>null\<close> and the empty
  string are falsy, every other string is truthy.
\<close>

definition falsy :: "string option \<Rightarrow> bool" where
  "falsy v = (case v of None \<Rightarrow> True | Some s \<Rightarrow> s = [])"

text \<open>\<open>a || d\<close> on an optional string \<open>a\<close> and a string literal \<open>d\<close>.\<close>

definition or_else :: "string option \<Rightarrow> string \<Rightarrow> string" where
  "or_else a d = (case a of None \<Rightarrow> d | Some s \<Rightarrow> if s = [] then d else s)"

text \<open>
  \<open>a << k\<close>: the left operand is converted to a 32-bit integer, shifted, and the low
  32 bits are read back as a signed number.
\<close>

definition shift_left :: "int \<Rightarrow> nat \<Rightarrow> int" where
  "shift_left a k = sint (push_bit k (word_of_int a :: 32 word))"

section \<open>User colours (lib/liveblocks.ts)\<close>

definition colors :: "string list" where
  "colors =
    [''#E57373'', ''#81C784'', ''#64B5F6'', ''#FFD54F'',
     ''#BA68C8'', ''#4DB6AC'', ''#FF8A65'', ''#A1887F'']"

text \<open>
  The \<open>for\<close> loop of \<open>getUserColor\<close>, one code unit per round. \<open>hash\<close> is a number, not
  a 32-bit integer: only the shift truncates, the subtraction and the addition do not.
  Numbers are modelled as \<open>int\<close>, which is exact while their magnitude stays below
  \<open>2 ^ 53\<close>; each round adds less than \<open>2 ^ 32\<close> to the magnitude.
\<close>

fun hash_loop :: "utf16 \<Rightarrow> int \<Rightarrow> int" where
  "hash_loop [] hash = hash"
| "hash_loop (c # cs) hash = hash_loop cs (uint c + (shift_left hash 5 - hash))"

definition getUserColor :: "utf16 \<Rightarrow> string" where
  "getUserColor userId = colors ! nat (\<bar>hash_loop userId 0\<bar> mod int (length colors))"

section \<open>Sections and the section tree (SectionPanel)\<close>

datatype SectionStatus = empty | draft | needs_review | approved | disputed

datatype BindingType = discussion | editing | reference | question | approval

text \<open>
  \<open>Section\<close> of the types module. Field names carry the prefix \<open>s_\<close> where the plain
  name is taken (\<open>id\<close>, \<open>order\<close>). The fields \<open>prosemirror_node_id\<close>,
  \<open>content_preview\<close>, \<open>ai_confidence\<close>, \<open>open_questions\<close>, \<open>created_at\<close> and
  \<open>updated_at\<close> are never read or written by the functions modelled here and are left out.
\<close>

record Section =
  s_id :: string
  document_id :: string
  section_number :: string
  title :: string
  parent_id :: "string option"
  s_order :: int
  status :: SectionStatus
  ai_generated :: bool

text \<open>\<open>sections.filter((s) => !s.parent_id)\<close>\<close>

definition rootSections :: "Section list \<Rightarrow> Section list" where
  "rootSections secs = filter (\<lambda>s. falsy (parent_id s)) secs"

text \<open>
  \<open>xs.sort((a, b) => a.order - b.order)\<close>: a stable sort, ascending by \<open>order\<close>.
\<close>

definition sort_by_order :: "Section list \<Rightarrow> Section list" where
  "sort_by_order xs = sort_key s_order xs"

text \<open>The list that \<open>SectionPanel\<close> maps \<open>renderSection\<close> over.\<close>

definition renderedRoots :: "Section list \<Rightarrow> Section list" where
  "renderedRoots secs = sort_by_order (rootSections secs)"

definition getChildren :: "Section list \<Rightarrow> string \<Rightarrow> Section list" where
  "getChildren secs parentId =
     sort_by_order (filter (\<lambda>s. parent_id s = Some parentId) secs)"

text \<open>A section record with the given id, parent and order, for concrete scenarios.\<close>

definition sec :: "string \<Rightarrow> string option \<Rightarrow> int \<Rightarrow> Section" where
  "sec i p n =
     \<lparr>s_id = i, document_id = ''d1'', section_number = ''1'', title = ''T'',
      parent_id = p, s_order = n, status = empty, ai_generated = False\<rparr>"

section \<open>Bindings, documents and the state of the useDocument hook\<close>

text \<open>
  \<open>SectionBinding\<close> of the types module, with \<open>b_id\<close> for \<open>id\<close> and \<open>b_note\<close> for
  \<open>note\<close>.
\<close>

record SectionBinding =
  b_id :: string
  section_id :: string
  message_id :: "string option"
  binding_type :: BindingType
  created_by_id :: "string option"
  is_ai_generated :: bool
  is_active :: bool
  b_note :: "string option"
  created_at :: string
  deactivated_at :: "string option"

text \<open>
  The content payload (\<open>Record<string, unknown>\<close>) is opaque to the hook: a list of keys
  with their serialised values. \<open>DocumentWithContent\<close> keeps the fields that identify the
  document and its \<open>content\<close>; the remaining descriptive fields are never read or written
  by the hook and are left out.
\<close>

type_synonym content = "(string \<times> string) list"

record DocumentWithContent =
  d_id :: string
  project_id :: string
  d_title :: string
  current_version :: int
  content :: "content option"

text \<open>
  What a rejected promise carries: an \<open>Error\<close> instance with its message, or some other
  value. Every \<open>catch\<close> block of the hook normalises it with
  \<open>err instanceof Error ? err : new Error(fallback)\<close>.
\<close>

datatype thrown = Error string | NotAnError

definition as_error :: "thrown \<Rightarrow> string \<Rightarrow> thrown" where
  "as_error err fallback = (case err of Error m \<Rightarrow> Error m | NotAnError \<Rightarrow> Error fallback)"

text \<open>
  The six \<open>useState\<close> cells of \<open>useDocument\<close>. The callbacks are rebuilt whenever a cell
  they read changes (their \<open>useCallback\<close> dependencies), so a call made after the previous
  one has settled reads the current cells; the model passes the state explicitly.
\<close>

record hook_state =
  document :: "DocumentWithContent option"
  sections :: "Section list"
  activeBindings :: "SectionBinding list"
  activeSectionId :: "string option"
  isLoading :: bool
  error :: "thrown option"

text \<open>
  \<open>UseDocumentOptions\<close>: the document id, and whether an \<open>onError\<close> handler was given
  (\<open>onError?.(error)\<close> does nothing without one).
\<close>

record UseDocumentOptions =
  documentId :: string
  onError :: bool

text \<open>The outbound calls of the \<open>api\<close> client that the modelled callbacks make.\<close>

datatype api_call =
    GetDocument string
  | ListSections string
  | GetActiveBindings string
  | UpdateDocument string content
  | DeleteSection string string
  | CreateSectionBinding string string BindingType "string option"
  | UpdateSectionBinding string string bool

text \<open>
  The server is an input: each callback takes the settled result of every call it may
  make (\<open>Inl\<close> a rejection, \<open>Inr\<close> the value). What a callback does is recorded as: the
  value it resolves to or the error it rejects with, the state after it, the calls it made
  in order, and the errors it handed to \<open>onError\<close>.
\<close>

record 'a outcome =
  returned :: "thrown + 'a"
  state_after :: hook_state
  calls :: "api_call list"
  reported :: "thrown list"

definition report :: "UseDocumentOptions \<Rightarrow> thrown \<Rightarrow> thrown list" where
  "report opts e = (if onError opts then [e] else [])"

text \<open>
  The \<open>catch\<close> block shared by every callback but \<open>loadDocument\<close>: normalise, report,
  rethrow. No state cell is written.
\<close>

definition rejected :: "UseDocumentOptions \<Rightarrow> hook_state \<Rightarrow> api_call list \<Rightarrow> thrown \<Rightarrow> string \<Rightarrow> 'a outcome" where
  "rejected opts st cs err fallback =
     (let e = as_error err fallback
      in \<lparr>returned = Inl e, state_after = st, calls = cs, reported = report opts e\<rparr>)"

text \<open>
  \<open>Promise.all\<close> over three promises: the values when all three are fulfilled, otherwise a
  rejection. When more than one rejects, the reason is that of the one that settles first;
  the model takes the first in argument order.
\<close>

definition promise_all3 :: "thrown + 'a \<Rightarrow> thrown + 'b \<Rightarrow> thrown + 'c \<Rightarrow> thrown + ('a \<times> 'b \<times> 'c)" where
  "promise_all3 p q r =
     (case p of Inl e \<Rightarrow> Inl e | Inr a \<Rightarrow>
       (case q of Inl e \<Rightarrow> Inl e | Inr b \<Rightarrow>
         (case r of Inl e \<Rightarrow> Inl e | Inr c \<Rightarrow> Inr (a, b, c))))"

definition loadDocument ::
  "UseDocumentOptions \<Rightarrow> hook_state \<Rightarrow> thrown + DocumentWithContent \<Rightarrow> thrown + Section list \<Rightarrow>
   thrown + SectionBinding list \<Rightarrow> unit outcome" where
  "loadDocument opts st doc_resp sections_resp bindings_resp =
     (let cs = [GetDocument (documentId opts), ListSections (documentId opts),
                GetActiveBindings (documentId opts)]
      in case promise_all3 doc_resp sections_resp bindings_resp of
           Inr (doc, sectionList, bindings) \<Rightarrow>
             \<lparr>returned = Inr (),
              state_after = st\<lparr>document := Some doc, sections := sectionList,
                               activeBindings := bindings, error := None, isLoading := False\<rparr>,
              calls = cs, reported = []\<rparr>
         | Inl err \<Rightarrow>
             (let e = as_error err ''Failed to load document''
              in \<lparr>returned = Inr (),
                  state_after = st\<lparr>error := Some e, isLoading := False\<rparr>,
                  calls = cs, reported = report opts e\<rparr>))"

definition updateContent ::
  "UseDocumentOptions \<Rightarrow> hook_state \<Rightarrow> content \<Rightarrow> thrown + 'd \<Rightarrow> 'd outcome" where
  "updateContent opts st new_content resp =
     (let cs = [UpdateDocument (documentId opts) new_content]
      in case resp of
           Inr updated \<Rightarrow>
             \<lparr>returned = Inr updated,
              state_after = st\<lparr>document :=
                 (case document st of Some prev \<Rightarrow> Some (prev\<lparr>content := Some new_content\<rparr>)
                  | None \<Rightarrow> None)\<rparr>,
              calls = cs, reported = []\<rparr>
         | Inl err \<Rightarrow> rejected opts st cs err ''Failed to update document'')"

definition deleteSection ::
  "UseDocumentOptions \<Rightarrow> hook_state \<Rightarrow> string \<Rightarrow> thrown + unit \<Rightarrow> unit outcome" where
  "deleteSection opts st sectionId resp =
     (let cs = [DeleteSection (documentId opts) sectionId]
      in case resp of
           Inr _ \<Rightarrow>
             \<lparr>returned = Inr (),
              state_after = st\<lparr>sections := filter (\<lambda>s. s_id s \<noteq> sectionId) (sections st),
                               activeSectionId :=
                                 (if activeSectionId st = Some sectionId then None
                                  else activeSectionId st)\<rparr>,
              calls = cs, reported = []\<rparr>
         | Inl err \<Rightarrow> rejected opts st cs err ''Failed to delete section'')"

text \<open>
  \<open>activateSection\<close>. \<open>bindingType\<close> is optional and defaults to \<open>discussion\<close>. The first
  response is read only when there is a current binding to deactivate.
\<close>

definition activateSection ::
  "UseDocumentOptions \<Rightarrow> hook_state \<Rightarrow> string \<Rightarrow> BindingType option \<Rightarrow> string option \<Rightarrow>
   thrown + SectionBinding \<Rightarrow> thrown + SectionBinding \<Rightarrow> SectionBinding outcome" where
  "activateSection opts st sectionId bindingType messageId update_resp create_resp =
     (let bt = (case bindingType of None \<Rightarrow> discussion | Some t \<Rightarrow> t);
          currentBinding =
            find (\<lambda>b. Some (section_id b) = activeSectionId st \<and> is_active b) (activeBindings st);
          update_calls =
            (case currentBinding of None \<Rightarrow> []
             | Some cb \<Rightarrow> [UpdateSectionBinding (documentId opts) (b_id cb) False]);
          create_call = CreateSectionBinding (documentId opts) sectionId bt messageId
      in case (currentBinding, update_resp) of
           (Some cb, Inl err) \<Rightarrow> rejected opts st update_calls err ''Failed to activate section''
         | _ \<Rightarrow>
           (case create_resp of
              Inl err \<Rightarrow>
                rejected opts st (update_calls @ [create_call]) err ''Failed to activate section''
            | Inr binding \<Rightarrow>
                \<lparr>returned = Inr binding,
                 state_after = st\<lparr>activeBindings :=
                     filter (\<lambda>b. section_id b \<noteq> sectionId \<or> \<not> is_active b) (activeBindings st)
                       @ [binding],
                   activeSectionId := Some sectionId\<rparr>,
                 calls = update_calls @ [create_call], reported = []\<rparr>))"

definition deactivateSection ::
  "UseDocumentOptions \<Rightarrow> hook_state \<Rightarrow> string \<Rightarrow> thrown + SectionBinding \<Rightarrow> unit outcome" where
  "deactivateSection opts st sectionId update_resp =
     (let clear_focus = (\<lambda>s. if activeSectionId st = Some sectionId
                               then s\<lparr>activeSectionId := None\<rparr> else s)
      in case find (\<lambda>b. section_id b = sectionId \<and> is_active b) (activeBindings st) of
           None \<Rightarrow>
             \<lparr>returned = Inr (), state_after = clear_focus st, calls = [], reported = []\<rparr>
         | Some binding \<Rightarrow>
             (let cs = [UpdateSectionBinding (documentId opts) (b_id binding) False]
              in case update_resp of
                   Inl err \<Rightarrow> rejected opts st cs err ''Failed to deactivate section''
                 | Inr _ \<Rightarrow>
                     \<lparr>returned = Inr (),
                      state_after = clear_focus (st\<lparr>activeBindings :=
                         map (\<lambda>b. if b_id b = b_id binding then b\<lparr>is_active := False\<rparr> else b)
                           (activeBindings st)\<rparr>),
                      calls = cs, reported = []\<rparr>))"

section \<open>Presence (components/editor/CollaborationCursors.tsx)\<close>

text \<open>
  One entry of \<open>useOthers()\<close>: the connection id, the presence record and the identity
  record of a remote participant. Presence and identity are cast from untyped values and
  read through \<open>?.\<close>, so either may be missing. Coordinates are numbers that are only
  copied into the rendered transform.
\<close>

record Cursor =
  cursor_x :: int
  cursor_y :: int

record Presence =
  cursor :: "Cursor option"
  selection :: "string option"

record UserInfo =
  u_name :: string
  u_color :: string
  u_avatar :: "string option"

record Other =
  connectionId :: nat
  presence :: "Presence option"
  info :: "UserInfo option"

text \<open>\<open>(presence as Presence)?.cursor\<close>\<close>

definition cursor_of :: "Other \<Rightarrow> Cursor option" where
  "cursor_of other = (case presence other of None \<Rightarrow> None | Some p \<Rightarrow> cursor p)"

text \<open>The element rendered for one participant: its key, position, colour and name tag.\<close>

record CursorElement =
  el_key :: nat
  translate_x :: int
  translate_y :: int
  fill :: string
  name_tag :: string

text \<open>
  The callback mapped over \<open>others\<close> by \<open>CollaborationCursors\<close>: \<open>null\<close> when there is no
  cursor, an element otherwise.
\<close>

definition renderCursor :: "Other \<Rightarrow> CursorElement option" where
  "renderCursor other =
     (case cursor_of other of
        None \<Rightarrow> None
      | Some c \<Rightarrow>
          Some \<lparr>el_key = connectionId other, translate_x = cursor_x c, translate_y = cursor_y c,
                fill = or_else (map_option u_color (info other)) ''#000'',
                name_tag = or_else (map_option u_name (info other)) ''Anonymous''\<rparr>)"

definition CollaborationCursors :: "Other list \<Rightarrow> CursorElement option list" where
  "CollaborationCursors others = map renderCursor others"

text \<open>A \<open>null\<close> child renders nothing: the cursors on screen are the non-null entries.\<close>

fun non_null :: "'a option list \<Rightarrow> 'a list" where
  "non_null [] = []"
| "non_null (None # xs) = non_null xs"
| "non_null (Some x # xs) = x # non_null xs"

definition renderedCursors :: "Other list \<Rightarrow> CursorElement list" where
  "renderedCursors others = non_null (CollaborationCursors others)"

record Collaborator =
  c_id :: nat
  c_info :: "UserInfo option"
  c_presence :: "Presence option"

record Collaborators =
  c_others :: "Collaborator list"
  c_self :: "Collaborator option"
  c_count :: nat

definition collaborator :: "Other \<Rightarrow> Collaborator" where
  "collaborator other =
     \<lparr>c_id = connectionId other, c_info = info other, c_presence = presence other\<rparr>"

definition useCollaborators :: "Other list \<Rightarrow> Other option \<Rightarrow> Collaborators" where
  "useCollaborators others self =
     \<lparr>c_others = map collaborator others,
      c_self = (case self of Some me \<Rightarrow> Some (collaborator me) | None \<Rightarrow> None),
      c_count = length others + 1\<rparr>"

section \<open>Concrete scenarios\<close>

definition opts1 :: UseDocumentOptions where
  "opts1 = \<lparr>documentId = ''d1'', onError = True\<rparr>"

text \<open>No document loaded, nothing focused, no load in flight.\<close>

definition idle :: hook_state where
  "idle = \<lparr>document = None, sections = [], activeBindings = [], activeSectionId = None,
           isLoading = False, error = None\<rparr>"

text \<open>The record the server returns for a binding it has just created: active, not closed.\<close>

definition created :: "string \<Rightarrow> string \<Rightarrow> BindingType \<Rightarrow> SectionBinding" where
  "created i s t =
     \<lparr>b_id = i, section_id = s, message_id = None, binding_type = t,
      created_by_id = Some ''u1'', is_ai_generated = False, is_active = True,
      b_note = None, created_at = ''t0'', deactivated_at = None\<rparr>"

text \<open>The record the server returns after closing a binding.\<close>

definition closed :: "SectionBinding \<Rightarrow> SectionBinding" where
  "closed b = b\<lparr>is_active := False, deactivated_at := Some ''t1''\<rparr>"

definition doc1 :: DocumentWithContent where
  "doc1 = \<lparr>d_id = ''d1'', project_id = ''p1'', d_title = ''Requirements'',
           current_version = 1, content = Some [(''type'', ''doc'')]\<rparr>"

text \<open>
  \<open>s1\<close> is in the section list and focused, with its active binding \<open>b1\<close> in the list:
  the state reached from \<open>idle\<close> by loading one section and activating it
  (\<open>focused_s1_reachable\<close> below).
\<close>

definition focused_s1 :: hook_state where
  "focused_s1 =
     \<lparr>document = Some doc1, sections = [sec ''s1'' None 0],
      activeBindings = [created ''b1'' ''s1'' discussion], activeSectionId = Some ''s1'',
      isLoading = False, error = None\<rparr>"

text \<open>The response slot of a call that is not made; it is never read.\<close>

definition unread :: "thrown + SectionBinding" where
  "unread = Inl NotAnError"

text \<open>\<open>activate("s1", "discussion")\<close> then \<open>activate("s2", "editing")\<close>, both calls served.\<close>

definition after_s1 :: hook_state where
  "after_s1 =
     state_after (activateSection opts1 idle ''s1'' (Some discussion) None
       unread (Inr (created ''b1'' ''s1'' discussion)))"

definition switch_s1_s2 :: "SectionBinding outcome" where
  "switch_s1_s2 =
     activateSection opts1 after_s1 ''s2'' (Some editing) None
       (Inr (closed (created ''b1'' ''s1'' discussion))) (Inr (created ''b2'' ''s2'' editing))"

text \<open>Two remote participants: the first has no cursor, the second points into the canvas.\<close>

definition alice :: Other where
  "alice = \<lparr>connectionId = 1, presence = Some \<lparr>cursor = None, selection = None\<rparr>,
            info = Some \<lparr>u_name = ''Alice'', u_color = ''#E57373'', u_avatar = None\<rparr>\<rparr>"

definition bob :: Other where
  "bob = \<lparr>connectionId = 2,
          presence = Some \<lparr>cursor = Some \<lparr>cursor_x = 10, cursor_y = 20\<rparr>, selection = None\<rparr>,
          info = Some \<lparr>u_name = ''Bob'', u_color = ''#81C784'', u_avatar = None\<rparr>\<rparr>"

section \<open>Auxiliary facts\<close>

lemmas scenario_defs = opts1_def idle_def created_def closed_def doc1_def focused_s1_def
  after_s1_def switch_s1_s2_def unread_def sec_def

lemmas op_defs = activateSection_def deactivateSection_def deleteSection_def updateContent_def
  loadDocument_def promise_all3_def rejected_def report_def as_error_def Let_def

lemma rejected_sel:
  "returned (rejected opts st cs err fb) = Inl (as_error err fb)"
  "state_after (rejected opts st cs err fb) = st"
  "calls (rejected opts st cs err fb) = cs"
  "reported (rejected opts st cs err fb) = report opts (as_error err fb)"
  by (simp_all add: rejected_def Let_def)

lemma as_error_is_Error: "\<exists>m. as_error err fb = Error m"
  by (cases err) (simp_all add: as_error_def)

lemma promise_all3_Inl_iff:
  "(\<exists>e. promise_all3 p q r = Inl e) \<longleftrightarrow> isl p \<or> isl q \<or> isl r"
  by (cases p; cases q; cases r) (simp_all add: promise_all3_def)

lemma promise_all3_Inr: "promise_all3 (Inr a) (Inr b) (Inr c) = Inr (a, b, c)"
  by (simp add: promise_all3_def)

lemma palette_index: "nat (\<bar>h\<bar> mod int (length colors)) < length colors"
  by (simp add: colors_def)

lemma falsy_iff: "falsy v \<longleftrightarrow> v = None \<or> v = Some []"
  by (simp add: falsy_def split: option.split)

lemma mset_sort_by_order: "mset (sort_by_order xs) = mset xs"
  by (simp add: sort_by_order_def)

lemma sorted_sort_by_order: "sorted (map s_order (sort_by_order xs))"
  by (simp add: sort_by_order_def)

lemma non_null_set: "set (non_null xs) = {x. Some x \<in> set xs}"
  by (induction xs rule: non_null.induct) auto

lemma renderCursor_key: "renderCursor other = Some e \<Longrightarrow> el_key e = connectionId other"
  by (auto simp add: renderCursor_def split: option.splits)

text \<open>
  The scenario state \<open>focused_s1\<close> is reached from \<open>idle\<close> by a successful load followed by
  a successful activation of \<open>s1\<close>.
\<close>

lemma focused_s1_reachable:
  "state_after (activateSection opts1
     (state_after (loadDocument opts1 idle (Inr doc1) (Inr [sec ''s1'' None 0]) (Inr [])))
     ''s1'' (Some discussion) None unread (Inr (created ''b1'' ''s1'' discussion))) = focused_s1"
  by (simp add: scenario_defs op_defs)

text \<open>
  \<open>deactivateSection\<close> does write the closed binding back into the local list: after
  \<open>activate("s1")\<close> and \<open>deactivate("s1")\<close> no local record is active.
\<close>

lemma deactivateSection_closes_local_record:
  "filter is_active (activeBindings (state_after
     (deactivateSection opts1 after_s1 ''s1'' (Inr (closed (created ''b1'' ''s1'' discussion)))))) = []"
  by (simp add: scenario_defs op_defs)

text \<open>The scenario of the section tree, as lists.\<close>

lemma section_tree_scenario:
  "renderedRoots [sec ''s1'' None 0, sec ''s2'' (Some ''s1'') 0] = [sec ''s1'' None 0] \<and>
   getChildren [sec ''s1'' None 0, sec ''s2'' (Some ''s1'') 0] ''s1'' = [sec ''s2'' (Some ''s1'') 0]"
  by (simp add: renderedRoots_def rootSections_def getChildren_def sort_by_order_def sec_def
      falsy_def)

section \<open>The claims\<close>

subsection \<open>C1: at most one active binding\<close>

text \<open>
  C1. The claim: over any sequence of activations and deactivations the binding list never
  holds more than one binding with \<open>is_active\<close>, and after \<open>activate("s1")\<close> then
  \<open>activate("s2")\<close> the binding created for \<open>s1\<close> is no longer active. The code at that
  input: the switch sends the deactivation of \<open>b1\<close> and the creation of \<open>b2\<close>, in this
  order, and then rebuilds the list by dropping the active bindings of the new section
  only, so the local record of \<open>b1\<close> stays active beside \<open>b2\<close>.
\<close>

theorem activateSection_switch_leaves_two_active:
  "filter is_active (activeBindings (state_after switch_s1_s2)) =
     [created ''b1'' ''s1'' discussion, created ''b2'' ''s2'' editing] \<and>
   calls switch_s1_s2 =
     [UpdateSectionBinding ''d1'' ''b1'' False, CreateSectionBinding ''d1'' ''s2'' editing None] \<and>
   activeSectionId (state_after switch_s1_s2) = Some ''s2''"
  by (simp add: scenario_defs op_defs)

subsection \<open>C2: the creation call fails after the deactivation call succeeded\<close>

text \<open>
  C2, as amended. When a binding of the focused section is active, its deactivation call
  succeeds and the creation call is rejected, \<open>activateSection\<close> rejects with the normalised
  error and hands it to \<open>onError\<close>; the focus is left on the previous section (it is not
  cleared); and the calls made are the deactivation and the failed creation, nothing after
  them, so the previous binding is not activated again.
\<close>

theorem activateSection_create_fails:
  "\<lbrakk>find (\<lambda>b. Some (section_id b) = activeSectionId st \<and> is_active b) (activeBindings st) = Some cb;
    r = activateSection opts st sectionId bindingType messageId (Inr u) (Inl err)\<rbrakk> \<Longrightarrow>
   returned r = Inl (as_error err ''Failed to activate section'') \<and>
   reported r = report opts (as_error err ''Failed to activate section'') \<and>
   activeSectionId (state_after r) = Some (section_id cb) \<and>
   calls r = [UpdateSectionBinding (documentId opts) (b_id cb) False,
              CreateSectionBinding (documentId opts) sectionId
                (case bindingType of None \<Rightarrow> discussion | Some t \<Rightarrow> t) messageId]"
proof -
  assume cur: "find (\<lambda>b. Some (section_id b) = activeSectionId st \<and> is_active b)
                 (activeBindings st) = Some cb"
    and r: "r = activateSection opts st sectionId bindingType messageId (Inr u) (Inl err)"
  from cur have foc: "activeSectionId st = Some (section_id cb)"
    by (auto simp add: find_Some_iff)
  show ?thesis
    unfolding r activateSection_def Let_def by (simp add: cur rejected_sel, simp add: foc)
qed

theorem activateSection_create_fails_witness:
  "returned (activateSection opts1 focused_s1 ''s2'' None None
      (Inr (closed (created ''b1'' ''s1'' discussion))) (Inl (Error ''Network''))) =
     Inl (Error ''Network'') \<and>
   reported (activateSection opts1 focused_s1 ''s2'' None None
      (Inr (closed (created ''b1'' ''s1'' discussion))) (Inl (Error ''Network''))) =
     [Error ''Network''] \<and>
   activeSectionId (state_after (activateSection opts1 focused_s1 ''s2'' None None
      (Inr (closed (created ''b1'' ''s1'' discussion))) (Inl (Error ''Network'')))) = Some ''s1'' \<and>
   calls (activateSection opts1 focused_s1 ''s2'' None None
      (Inr (closed (created ''b1'' ''s1'' discussion))) (Inl (Error ''Network''))) =
     [UpdateSectionBinding ''d1'' ''b1'' False, CreateSectionBinding ''d1'' ''s2'' discussion None]"
proof -
  have cur: "find (\<lambda>b. Some (section_id b) = activeSectionId focused_s1 \<and> is_active b)
               (activeBindings focused_s1) = Some (created ''b1'' ''s1'' discussion)"
    by (simp add: scenario_defs)
  from activateSection_create_fails [OF cur refl, of opts1 "''s2''" None None
      "closed (created ''b1'' ''s1'' discussion)" "Error ''Network''"]
  show ?thesis
    by (simp add: scenario_defs report_def as_error_def)
qed

text \<open>
  The claim as stated asks for the idle state. With \<open>s1\<close> focused, a switch to \<open>s2\<close> whose
  creation call is rejected leaves the focus on \<open>s1\<close>.
\<close>

theorem activateSection_create_fails_counterexample:
  "activeSectionId (state_after (activateSection opts1 focused_s1 ''s2'' None None
      (Inr (closed (created ''b1'' ''s1'' discussion))) (Inl (Error ''Network'')))) = Some ''s1'' \<and>
   activeSectionId (state_after (activateSection opts1 focused_s1 ''s2'' None None
      (Inr (closed (created ''b1'' ''s1'' discussion))) (Inl (Error ''Network'')))) \<noteq> None"
  by (simp add: scenario_defs op_defs)

subsection \<open>C3: the calls of a focus switch\<close>

text \<open>
  C3, as amended. When section \<open>A\<close> is focused and has an active binding in the list, a call
  of \<open>activateSection\<close> for \<open>B\<close> first sends the deactivation of that binding. If that call
  succeeds, the creation of the new binding for \<open>B\<close> follows and these are the only two
  calls, whether the creation succeeds or not; if the deactivation is rejected it is the
  only call, and no creation is attempted.
\<close>

theorem activateSection_switch_calls:
  "\<lbrakk>activeSectionId st = Some A;
    find (\<lambda>b. Some (section_id b) = activeSectionId st \<and> is_active b) (activeBindings st) = Some cb;
    r = activateSection opts st B bindingType messageId update_resp create_resp\<rbrakk> \<Longrightarrow>
   section_id cb = A \<and> is_active cb \<and> cb \<in> set (activeBindings st) \<and>
   calls r =
     (if isl update_resp then [UpdateSectionBinding (documentId opts) (b_id cb) False]
      else [UpdateSectionBinding (documentId opts) (b_id cb) False,
            CreateSectionBinding (documentId opts) B
              (case bindingType of None \<Rightarrow> discussion | Some t \<Rightarrow> t) messageId])"
proof -
  assume foc: "activeSectionId st = Some A"
    and cur: "find (\<lambda>b. Some (section_id b) = activeSectionId st \<and> is_active b)
                (activeBindings st) = Some cb"
    and r: "r = activateSection opts st B bindingType messageId update_resp create_resp"
  from cur foc have cb: "section_id cb = A \<and> is_active cb \<and> cb \<in> set (activeBindings st)"
    by (auto simp add: find_Some_iff)
  have "calls r =
     (if isl update_resp then [UpdateSectionBinding (documentId opts) (b_id cb) False]
      else [UpdateSectionBinding (documentId opts) (b_id cb) False,
            CreateSectionBinding (documentId opts) B
              (case bindingType of None \<Rightarrow> discussion | Some t \<Rightarrow> t) messageId])"
    unfolding r activateSection_def Let_def
    by (cases update_resp; cases create_resp) (simp_all add: cur rejected_sel)
  with cb show ?thesis by simp
qed

theorem activateSection_switch_calls_witness:
  "calls (activateSection opts1 focused_s1 ''s2'' (Some editing) None
      (Inr (closed (created ''b1'' ''s1'' discussion))) (Inr (created ''b2'' ''s2'' editing))) =
     [UpdateSectionBinding ''d1'' ''b1'' False, CreateSectionBinding ''d1'' ''s2'' editing None] \<and>
   calls (activateSection opts1 focused_s1 ''s2'' (Some editing) None
      (Inr (closed (created ''b1'' ''s1'' discussion))) (Inl (Error ''Network''))) =
     [UpdateSectionBinding ''d1'' ''b1'' False, CreateSectionBinding ''d1'' ''s2'' editing None] \<and>
   calls (activateSection opts1 focused_s1 ''s2'' (Some editing) None
      (Inl (Error ''Network'')) unread) =
     [UpdateSectionBinding ''d1'' ''b1'' False]"
proof -
  have foc: "activeSectionId focused_s1 = Some ''s1''"
    by (simp add: scenario_defs)
  have cur: "find (\<lambda>b. Some (section_id b) = activeSectionId focused_s1 \<and> is_active b)
               (activeBindings focused_s1) = Some (created ''b1'' ''s1'' discussion)"
    by (simp add: scenario_defs)
  note sw = activateSection_switch_calls [OF foc cur refl, of opts1 "''s2''" "Some editing" None]
  from sw [of "Inr (closed (created ''b1'' ''s1'' discussion))" "Inr (created ''b2'' ''s2'' editing)"]
       sw [of "Inr (closed (created ''b1'' ''s1'' discussion))" "Inl (Error ''Network'')"]
       sw [of "Inl (Error ''Network'')" unread]
  show ?thesis
    by (simp add: scenario_defs)
qed

text \<open>
  The claim as stated asks for two calls on every switch. With \<open>s1\<close> focused, a switch to
  \<open>s2\<close> whose deactivation call is rejected makes that one call and stops.
\<close>

theorem activateSection_switch_calls_counterexample:
  "calls (activateSection opts1 focused_s1 ''s2'' None None (Inl (Error ''Network'')) unread) =
     [UpdateSectionBinding ''d1'' ''b1'' False] \<and>
   length (calls (activateSection opts1 focused_s1 ''s2'' None None
      (Inl (Error ''Network'')) unread)) \<noteq> 2"
  by (simp add: scenario_defs op_defs)

subsection \<open>C4: deleting the focused section\<close>

text \<open>
  C4, as amended. A successful \<open>deleteSection\<close> of the focused section clears the focus,
  removes the section from the section list and makes one call, the deletion itself. It
  makes no call that deactivates a binding and does not touch the binding list: the
  bindings of the deleted section stay in it as they were.
\<close>

theorem deleteSection_focused:
  "\<lbrakk>activeSectionId st = Some sectionId; r = deleteSection opts st sectionId (Inr ())\<rbrakk> \<Longrightarrow>
   returned r = Inr () \<and>
   calls r = [DeleteSection (documentId opts) sectionId] \<and>
   activeSectionId (state_after r) = None \<and>
   sections (state_after r) = filter (\<lambda>s. s_id s \<noteq> sectionId) (sections st) \<and>
   sectionId \<notin> s_id ` set (sections (state_after r)) \<and>
   activeBindings (state_after r) = activeBindings st"
  by (auto simp add: deleteSection_def Let_def)

theorem deleteSection_focused_witness:
  "activeSectionId (state_after (deleteSection opts1 focused_s1 ''s1'' (Inr ()))) = None \<and>
   sections (state_after (deleteSection opts1 focused_s1 ''s1'' (Inr ()))) = [] \<and>
   activeBindings (state_after (deleteSection opts1 focused_s1 ''s1'' (Inr ()))) =
     [created ''b1'' ''s1'' discussion] \<and>
   calls (deleteSection opts1 focused_s1 ''s1'' (Inr ())) = [DeleteSection ''d1'' ''s1'']"
proof -
  have foc: "activeSectionId focused_s1 = Some ''s1''"
    by (simp add: scenario_defs)
  from deleteSection_focused [OF foc refl, of opts1]
  show ?thesis
    by (simp add: scenario_defs)
qed

text \<open>
  The claim as stated asks for the binding of the deleted section to leave the active
  bindings. After \<open>s1\<close> is deleted while focused, its binding \<open>b1\<close> is still in the list and
  still active, and the deletion was the only call.
\<close>

theorem deleteSection_focused_counterexample:
  "created ''b1'' ''s1'' discussion \<in>
     set (activeBindings (state_after (deleteSection opts1 focused_s1 ''s1'' (Inr ())))) \<and>
   section_id (created ''b1'' ''s1'' discussion) = ''s1'' \<and>
   is_active (created ''b1'' ''s1'' discussion) \<and>
   calls (deleteSection opts1 focused_s1 ''s1'' (Inr ())) = [DeleteSection ''d1'' ''s1'']"
  by (simp add: scenario_defs op_defs)

subsection \<open>C5: saving the content\<close>

text \<open>
  C5, as amended. \<open>updateContent\<close> makes one call, the save, and writes the local content
  only after that call has succeeded: then the content of the loaded document becomes the
  payload (nothing changes when no document is loaded). When the call is rejected it
  rejects with the normalised error, hands it to \<open>onError\<close>, and the local state, its
  content included, is what it was before the call: no edit was applied before the save,
  so there is none to roll back.
\<close>

theorem updateContent_after_save:
  "r = updateContent opts st new_content resp \<Longrightarrow>
   calls r = [UpdateDocument (documentId opts) new_content] \<and>
   (\<forall>err. resp = Inl err \<longrightarrow>
      returned r = Inl (as_error err ''Failed to update document'') \<and>
      reported r = report opts (as_error err ''Failed to update document'') \<and>
      state_after r = st) \<and>
   (\<forall>updated. resp = Inr updated \<longrightarrow>
      returned r = Inr updated \<and> reported r = [] \<and>
      state_after r =
        st\<lparr>document := map_option (\<lambda>prev. prev\<lparr>content := Some new_content\<rparr>) (document st)\<rparr>)"
  by (cases resp; cases "document st") (simp_all add: updateContent_def Let_def rejected_sel)

theorem updateContent_after_save_witness:
  "state_after (updateContent opts1 focused_s1 [(''type'', ''x'')]
      (Inl (Error ''Network'') :: thrown + DocumentWithContent)) = focused_s1 \<and>
   returned (updateContent opts1 focused_s1 [(''type'', ''x'')]
      (Inl (Error ''Network'') :: thrown + DocumentWithContent)) = Inl (Error ''Network'') \<and>
   document (state_after (updateContent opts1 focused_s1 [(''type'', ''x'')]
      (Inr (doc1\<lparr>content := Some [(''type'', ''x'')]\<rparr>)))) =
     Some (doc1\<lparr>content := Some [(''type'', ''x'')]\<rparr>)"
proof -
  note uc = updateContent_after_save [OF refl, of opts1 focused_s1 "[(''type'', ''x'')]"]
  from uc [of "Inl (Error ''Network'') :: thrown + DocumentWithContent"]
       uc [of "Inr (doc1\<lparr>content := Some [(''type'', ''x'')]\<rparr>)"]
  show ?thesis
    by (simp add: scenario_defs as_error_def)
qed

text \<open>
  The claim as stated asks for the local content to hold the new payload after a failed
  save. With \<open>doc1\<close> loaded, a rejected save of another payload leaves \<open>doc1\<close> as it was.
\<close>

theorem updateContent_after_save_counterexample:
  "document (state_after (updateContent opts1 focused_s1 [(''type'', ''x'')]
      (Inl (Error ''Network'') :: thrown + DocumentWithContent))) = Some doc1 \<and>
   content doc1 \<noteq> Some [(''type'', ''x'')]"
  by (simp add: scenario_defs op_defs)

subsection \<open>C6: loading is all or nothing\<close>

text \<open>
  C6. \<open>loadDocument\<close> starts the three fetches. If any of them is rejected, the failure is
  reported (the error cell is set and the error is handed to \<open>onError\<close>) and the document,
  the section list and the binding list are what they were; if all three succeed, the
  three are replaced by the fetched values and the error cell is cleared.
\<close>

theorem loadDocument_all_or_nothing:
  "r = loadDocument opts st doc_resp sections_resp bindings_resp \<Longrightarrow>
   calls r = [GetDocument (documentId opts), ListSections (documentId opts),
              GetActiveBindings (documentId opts)] \<and>
   (isl doc_resp \<or> isl sections_resp \<or> isl bindings_resp \<longrightarrow>
      (\<exists>m. error (state_after r) = Some (Error m) \<and> reported r = report opts (Error m)) \<and>
      document (state_after r) = document st \<and>
      sections (state_after r) = sections st \<and>
      activeBindings (state_after r) = activeBindings st) \<and>
   (\<forall>doc sectionList bindings.
      doc_resp = Inr doc \<and> sections_resp = Inr sectionList \<and> bindings_resp = Inr bindings \<longrightarrow>
      document (state_after r) = Some doc \<and>
      sections (state_after r) = sectionList \<and>
      activeBindings (state_after r) = bindings \<and>
      error (state_after r) = None \<and> reported r = [])"
proof -
  assume r: "r = loadDocument opts st doc_resp sections_resp bindings_resp"
  have c: "calls r = [GetDocument (documentId opts), ListSections (documentId opts),
              GetActiveBindings (documentId opts)]"
    unfolding r loadDocument_def Let_def by (simp split: sum.split prod.split)
  have f: "(\<exists>m. error (state_after r) = Some (Error m) \<and> reported r = report opts (Error m)) \<and>
      document (state_after r) = document st \<and>
      sections (state_after r) = sections st \<and>
      activeBindings (state_after r) = activeBindings st"
    if "isl doc_resp \<or> isl sections_resp \<or> isl bindings_resp"
  proof -
    from that obtain e where e: "promise_all3 doc_resp sections_resp bindings_resp = Inl e"
      using promise_all3_Inl_iff by blast
    obtain m where m: "as_error e ''Failed to load document'' = Error m"
      using as_error_is_Error by blast
    show ?thesis
      unfolding r loadDocument_def Let_def by (simp add: e m)
  qed
  have s: "document (state_after r) = Some doc \<and>
      sections (state_after r) = sectionList \<and>
      activeBindings (state_after r) = bindings \<and>
      error (state_after r) = None \<and> reported r = []"
    if "doc_resp = Inr doc \<and> sections_resp = Inr sectionList \<and> bindings_resp = Inr bindings"
    for doc sectionList bindings
    unfolding r loadDocument_def Let_def using that by (simp add: promise_all3_Inr)
  from c f s show ?thesis by blast
qed

theorem loadDocument_all_or_nothing_witness:
  "document (state_after (loadDocument opts1 focused_s1
      (Inr doc1) (Inl (Error ''Network'')) (Inr []))) = Some doc1 \<and>
   sections (state_after (loadDocument opts1 focused_s1
      (Inr doc1) (Inl (Error ''Network'')) (Inr []))) = [sec ''s1'' None 0] \<and>
   activeBindings (state_after (loadDocument opts1 focused_s1
      (Inr doc1) (Inl (Error ''Network'')) (Inr []))) = [created ''b1'' ''s1'' discussion] \<and>
   document (state_after (loadDocument opts1 idle (Inr doc1) (Inr [sec ''s1'' None 0])
      (Inr [created ''b1'' ''s1'' discussion]))) = Some doc1 \<and>
   sections (state_after (loadDocument opts1 idle (Inr doc1) (Inr [sec ''s1'' None 0])
      (Inr [created ''b1'' ''s1'' discussion]))) = [sec ''s1'' None 0] \<and>
   activeBindings (state_after (loadDocument opts1 idle (Inr doc1) (Inr [sec ''s1'' None 0])
      (Inr [created ''b1'' ''s1'' discussion]))) = [created ''b1'' ''s1'' discussion]"
proof -
  from loadDocument_all_or_nothing [OF refl, of opts1 focused_s1
         "Inr doc1" "Inl (Error ''Network'')" "Inr []"]
       loadDocument_all_or_nothing [OF refl, of opts1 idle
         "Inr doc1" "Inr [sec ''s1'' None 0]" "Inr [created ''b1'' ''s1'' discussion]"]
  show ?thesis
    by (simp add: focused_s1_def)
qed

subsection \<open>C7: the section tree\<close>

text \<open>
  C7, as amended. For every list of sections, the roots that are rendered are exactly the
  sections whose \<open>parent_id\<close> is falsy, that is null, absent or the empty string, each as
  often as it occurs in the list, in ascending \<open>order\<close>; the children of an id are exactly
  the sections whose \<open>parent_id\<close> is that id, in ascending \<open>order\<close>. When no section of
  the list has the empty string as \<open>parent_id\<close>, the roots are exactly the sections with
  no \<open>parent_id\<close>.
\<close>

theorem section_tree_projection:
  "mset (renderedRoots secs) =
     filter_mset (\<lambda>s. parent_id s = None \<or> parent_id s = Some '''') (mset secs) \<and>
   sorted (map s_order (renderedRoots secs)) \<and>
   mset (getChildren secs parentId) = filter_mset (\<lambda>s. parent_id s = Some parentId) (mset secs) \<and>
   sorted (map s_order (getChildren secs parentId)) \<and>
   ((\<forall>s \<in> set secs. parent_id s \<noteq> Some '''') \<longrightarrow>
      mset (renderedRoots secs) = filter_mset (\<lambda>s. parent_id s = None) (mset secs))"
proof -
  have roots: "mset (renderedRoots secs) =
      filter_mset (\<lambda>s. parent_id s = None \<or> parent_id s = Some '''') (mset secs)"
    by (simp add: renderedRoots_def rootSections_def mset_sort_by_order falsy_iff)
  have children: "mset (getChildren secs parentId) =
      filter_mset (\<lambda>s. parent_id s = Some parentId) (mset secs)"
    by (simp add: getChildren_def mset_sort_by_order)
  have plain: "mset (renderedRoots secs) = filter_mset (\<lambda>s. parent_id s = None) (mset secs)"
    if "\<forall>s \<in> set secs. parent_id s \<noteq> Some ''''"
  proof -
    from that have "filter_mset (\<lambda>s. parent_id s = None \<or> parent_id s = Some '''') (mset secs) =
        filter_mset (\<lambda>s. parent_id s = None) (mset secs)"
      by (intro filter_mset_cong) auto
    with roots show ?thesis by simp
  qed
  from roots children plain show ?thesis
    by (simp add: renderedRoots_def getChildren_def sorted_sort_by_order)
qed

text \<open>The scenario of the claim: \<open>s1\<close> is the only root and \<open>s2\<close> its only child.\<close>

theorem section_tree_projection_witness:
  "renderedRoots [sec ''s1'' None 0, sec ''s2'' (Some ''s1'') 0] = [sec ''s1'' None 0] \<and>
   getChildren [sec ''s1'' None 0, sec ''s2'' (Some ''s1'') 0] ''s1'' = [sec ''s2'' (Some ''s1'') 0]"
proof -
  have ne: "\<forall>s \<in> set [sec ''s1'' None 0, sec ''s2'' (Some ''s1'') 0]. parent_id s \<noteq> Some ''''"
    by (simp add: sec_def)
  from section_tree_projection [of "[sec ''s1'' None 0, sec ''s2'' (Some ''s1'') 0]" "''s1''"] ne
  have "mset (renderedRoots [sec ''s1'' None 0, sec ''s2'' (Some ''s1'') 0]) = {#sec ''s1'' None 0#}"
    and "mset (getChildren [sec ''s1'' None 0, sec ''s2'' (Some ''s1'') 0] ''s1'') =
      {#sec ''s2'' (Some ''s1'') 0#}"
    by (simp_all add: sec_def)
  then show ?thesis
    by simp
qed

text \<open>
  The claim as stated takes the roots to be the sections without a \<open>parent_id\<close>. A section
  whose \<open>parent_id\<close> is the empty string has one, and is rendered as a root.
\<close>

theorem section_tree_projection_counterexample:
  "renderedRoots [sec ''s1'' (Some '''') 0] = [sec ''s1'' (Some '''') 0] \<and>
   parent_id (sec ''s1'' (Some '''') 0) \<noteq> None"
  by (simp add: renderedRoots_def rootSections_def sort_by_order_def sec_def falsy_def)

subsection \<open>C8: a participant without a cursor\<close>

text \<open>
  C8. For a remote participant whose presence has no cursor (or who has no presence record),
  the cursor projection yields no element: its entry is null, and when connection ids are
  distinct no rendered cursor carries its id. The participant is still in the list of
  collaborators built from the same data.
\<close>

theorem no_cursor_not_rendered:
  "\<lbrakk>other \<in> set others; cursor_of other = None\<rbrakk> \<Longrightarrow>
   renderCursor other = None \<and>
   collaborator other \<in> set (c_others (useCollaborators others self)) \<and>
   c_id (collaborator other) = connectionId other \<and>
   (distinct (map connectionId others) \<longrightarrow>
      connectionId other \<notin> el_key ` set (renderedCursors others))"
proof -
  assume mem: "other \<in> set others" and nc: "cursor_of other = None"
  have r: "renderCursor other = None"
    by (simp add: renderCursor_def nc)
  have l: "collaborator other \<in> set (c_others (useCollaborators others self))"
    using mem by (simp add: useCollaborators_def)
  have k: "connectionId other \<notin> el_key ` set (renderedCursors others)"
    if d: "distinct (map connectionId others)"
  proof
    assume "connectionId other \<in> el_key ` set (renderedCursors others)"
    then obtain e where e: "Some e \<in> set (CollaborationCursors others)"
        and ke: "el_key e = connectionId other"
      by (auto simp add: renderedCursors_def non_null_set)
    from e obtain q where q: "q \<in> set others" and rq: "renderCursor q = Some e"
      by (auto simp add: CollaborationCursors_def)
    from rq ke have "connectionId q = connectionId other"
      by (simp add: renderCursor_key)
    with d q mem have "q = other"
      by (meson distinct_map inj_onD)
    with rq r show False by simp
  qed
  from r l k show ?thesis by (simp add: collaborator_def)
qed

theorem no_cursor_not_rendered_witness:
  "renderCursor alice = None \<and>
   collaborator alice \<in> set (c_others (useCollaborators [alice, bob] None)) \<and>
   connectionId alice \<notin> el_key ` set (renderedCursors [alice, bob])"
proof -
  have mem: "alice \<in> set [alice, bob]" by simp
  have nc: "cursor_of alice = None" by (simp add: alice_def cursor_of_def)
  have d: "distinct (map connectionId [alice, bob])" by (simp add: alice_def bob_def)
  from no_cursor_not_rendered [OF mem nc, of None] d
  show ?thesis by blast
qed

subsection \<open>C9: deactivating a section that is not focused\<close>

text \<open>
  C9. When the section is not the focused one and no binding of it in the list is active,
  \<open>deactivateSection\<close> resolves without an error, makes no call, reports nothing and leaves
  every state cell as it was.
\<close>

theorem deactivateSection_not_focused:
  "\<lbrakk>activeSectionId st \<noteq> Some sectionId;
    \<forall>b \<in> set (activeBindings st). \<not> (section_id b = sectionId \<and> is_active b)\<rbrakk> \<Longrightarrow>
   deactivateSection opts st sectionId update_resp =
     \<lparr>returned = Inr (), state_after = st, calls = [], reported = []\<rparr>"
proof -
  assume nf: "activeSectionId st \<noteq> Some sectionId"
    and nb: "\<forall>b \<in> set (activeBindings st). \<not> (section_id b = sectionId \<and> is_active b)"
  from nb have "find (\<lambda>b. section_id b = sectionId \<and> is_active b) (activeBindings st) = None"
    by (simp add: find_None_iff)
  with nf show ?thesis by (simp add: deactivateSection_def)
qed

theorem deactivateSection_not_focused_witness:
  "deactivateSection opts1 focused_s1 ''s2'' unread =
     \<lparr>returned = Inr (), state_after = focused_s1, calls = [], reported = []\<rparr>"
proof -
  have nf: "activeSectionId focused_s1 \<noteq> Some ''s2''"
    by (simp add: scenario_defs)
  have nb: "\<forall>b \<in> set (activeBindings focused_s1). \<not> (section_id b = ''s2'' \<and> is_active b)"
    by (simp add: scenario_defs)
  show ?thesis
    by (rule deactivateSection_not_focused [OF nf nb])
qed

subsection \<open>C10: user colours\<close>

text \<open>
  C10. For every user id, \<open>getUserColor\<close> returns one of the eight colours of the palette
  declared in the function, and equal user ids get the same colour.
\<close>

theorem getUserColor_in_palette:
  "getUserColor userId \<in> set colors \<and> length colors = 8 \<and>
   (\<forall>other. other = userId \<longrightarrow> getUserColor other = getUserColor userId)"
proof -
  have "getUserColor userId \<in> set colors"
    unfolding getUserColor_def by (rule nth_mem) (rule palette_index)
  moreover have "length colors = 8"
    by (simp add: colors_def)
  ultimately show ?thesis by simp
qed

theorem getUserColor_in_palette_witness:
  "getUserColor [97] \<in> set colors \<and> getUserColor [97] = ''#81C784''"
proof (rule conjI)
  show "getUserColor [97] \<in> set colors"
    by (rule getUserColor_in_palette [THEN conjunct1])
  have "[97] = ([97] :: utf16)" by simp
  with getUserColor_in_palette [of "[97]"] show "getUserColor [97] = ''#81C784''"
    by (simp add: getUserColor_def colors_def shift_left_def)
qed

end
